theory Spec2Isabelle
  imports Main
begin

section \<open>Data model of the \<open>App\<close> component (src/app.js, lines 6-13)\<close>

text \<open>
  JavaScript values that the component reads out of a parsed JSON body may be absent.
  \<open>Undefined\<close> stands for \<open>undefined\<close>/\<open>null\<close>, \<open>Str s\<close> for a string. Strings are
  lists of characters with code points below 256.
\<close>

datatype jsval = Undefined | Str string

text \<open>Truthiness as used by \<open>if (response)\<close>, \<open>message.text &&\<close> and \<open>data.message ||\<close>.\<close>

fun truthy :: "jsval \<Rightarrow> bool" where
  "truthy Undefined = False"
| "truthy (Str s) = (s \<noteq> [])"

text \<open>Interpolation of a value inside a template literal.\<close>

fun js_string :: "jsval \<Rightarrow> string" where
  "js_string Undefined = ''undefined''"
| "js_string (Str s) = s"

text \<open>\<open>a || d\<close> for a default string \<open>d\<close>.\<close>

definition or_else :: "jsval \<Rightarrow> string \<Rightarrow> jsval" where
  "or_else a d = (if truthy a then a else Str d)"

text \<open>A \<open>File\<close>, or the object \<open>{ name, type }\<close> built at line 196.\<close>

record pdf_file =
  file_name :: string
  file_type :: string

text \<open>An element of \<open>recentPdfs\<close>: \<open>{ id, name }\<close> (line 45).\<close>

record recent_pdf =
  pdf_id :: nat
  pdf_name :: string

text \<open>The \<open>message\<close> state: \<open>{ text, type }\<close> (line 13).\<close>

record msg =
  msg_text :: jsval
  msg_type :: string

section \<open>The recent-PDF list updater (lines 44-49)\<close>

text \<open>
  \<open>[newPdf, ...prev.filter(p => p.name !== file.name)].slice(0, 5)\<close> with
  \<open>newPdf = { id: Date.now(), name: file.name }\<close>; \<open>now\<close> is the value of \<open>Date.now()\<close>.
\<close>

definition updatedPdfs :: "nat \<Rightarrow> string \<Rightarrow> recent_pdf list \<Rightarrow> recent_pdf list" where
  "updatedPdfs now nm prev =
     take 5 (\<lparr>pdf_id = now, pdf_name = nm\<rparr> # filter (\<lambda>p. pdf_name p \<noteq> nm) prev)"

text \<open>A sequence of updater calls, each with its timestamp and file name, oldest first.\<close>

fun recordAll :: "(nat \<times> string) list \<Rightarrow> recent_pdf list \<Rightarrow> recent_pdf list" where
  "recordAll [] prev = prev"
| "recordAll ((now, nm) # calls) prev = recordAll calls (updatedPdfs now nm prev)"

section \<open>Requests, responses and the component state\<close>

text \<open>The two \<open>fetch\<close> calls: \<open>POST /upload_pdf\<close> with the file (line 34) and
  \<open>POST /ask_pdf\<close> with the query text (line 85).\<close>

datatype request = PostUploadPdf pdf_file | PostAskPdf string

text \<open>
  The object \<open>data\<close> parsed from a response body; each property the handlers read may be
  absent. The metrics object is opaque to the handlers, so its type is a parameter.
\<close>

record 'm data =
  d_message :: jsval
  d_response :: jsval
  d_metrics :: "'m option"

text \<open>
  How the two awaited expressions of a \<open>try\<close> block end: \<open>Responded ok data\<close> when both
  \<open>fetch\<close> and \<open>response.json()\<close> resolve, \<open>Threw m\<close> when control reaches the
  \<open>catch\<close> block with \<open>error.message = m\<close> (rejected fetch, body that is not JSON, or a
  body that has no properties to read).
\<close>

datatype 'm fetch_result = Responded bool "'m data" | Threw string

text \<open>\<open>document.execCommand('copy')\<close> returns a boolean (false when the command is
  unsupported or disabled) or throws.\<close>

datatype exec_result = ExecReturned bool | ExecThrew

text \<open>
  The first eight fields are the \<open>useState\<close> cells of lines 6-13, under their source
  names. The others are the environment the handlers act on: \<open>message_ref\<close> is the
  identity of the object held in \<open>message\<close> (every \<open>setMessage\<close> call passes a new object
  literal), \<open>effect_dep\<close> the identity the effect of line 129 last ran for, \<open>cleanup\<close> the
  timer captured by the cleanup function that effect returned, \<open>timers\<close> the browser's
  pending timeouts (identifier, due time), \<open>requests\<close> every fetch issued so far,
  \<open>inflight\<close> the fetches not yet settled, \<open>clipboard\<close> the clipboard text and \<open>copies\<close> the
  selections for which \<open>execCommand('copy')\<close> was called. Calls to \<open>console.error\<close> and the
  temporary textarea of lines 113-124 are left out.
\<close>

record 'm world =
  query :: string
  response :: jsval
  loading :: bool
  metrics :: "'m option"
  pdfFile :: "pdf_file option"
  showUploadModal :: bool
  recentPdfs :: "recent_pdf list"
  message :: msg
  message_ref :: nat
  effect_dep :: nat
  cleanup :: "nat option"
  timers :: "(nat \<times> nat) list"
  next_timer :: nat
  requests :: "request list"
  inflight :: "request list"
  clipboard :: string
  copies :: "string list"

definition init :: "'m world" where
  "init = \<lparr>query = [], response = Str [], loading = False, metrics = None, pdfFile = None,
     showUploadModal = False, recentPdfs = [], message = \<lparr>msg_text = Str [], msg_type = []\<rparr>,
     message_ref = 0, effect_dep = 0, cleanup = None, timers = [], next_timer = 0,
     requests = [], inflight = [], clipboard = [], copies = []\<rparr>"

definition setMessage :: "msg \<Rightarrow> 'm world \<Rightarrow> 'm world" where
  "setMessage m w = w\<lparr>message := m, message_ref := Suc (message_ref w)\<rparr>"

definition fetch :: "request \<Rightarrow> 'm world \<Rightarrow> 'm world" where
  "fetch r w = w\<lparr>requests := requests w @ [r], inflight := inflight w @ [r]\<rparr>"

definition settle :: "request \<Rightarrow> 'm world \<Rightarrow> 'm world" where
  "settle r w = w\<lparr>inflight := remove1 r (inflight w)\<rparr>"

text \<open>\<open>String.prototype.trim\<close> on code points below 256: tab, line feed, vertical tab,
  form feed, carriage return, space and no-break space are stripped from both ends.\<close>

definition is_space :: "char \<Rightarrow> bool" where
  "is_space c = (c \<in> set [CHR 0x09, CHR 0x0A, CHR 0x0B, CHR 0x0C, CHR 0x0D, CHR 0x20, CHR 0xA0])"

definition trim :: "string \<Rightarrow> string" where
  "trim s = rev (dropWhile is_space (rev (dropWhile is_space s)))"

definition quoted :: "string \<Rightarrow> string" where
  "quoted s = CHR 0x22 # s @ [CHR 0x22]"

section \<open>\<open>handleFileChange\<close> (lines 22-66)\<close>

text \<open>
  The handler is asynchronous. \<open>handleFileChange_begin\<close> is the part that runs up to the
  first \<open>await\<close> (lines 23-37, or the \<open>else\<close> of line 64); its first component says how
  that part ended. \<open>handleFileChange_resume\<close> is the part that runs once the awaited
  expressions have ended (lines 39-62), on whatever the state is by then; \<open>now\<close> is the
  value of \<open>Date.now()\<close> at line 45.
\<close>

datatype upload_exit = InvalidFileType | UploadRequested pdf_file

definition invalid_file_msg :: msg where
  "invalid_file_msg = \<lparr>msg_text = Str ''Please select a valid PDF file.'', msg_type = ''error''\<rparr>"

definition handleFileChange_begin :: "pdf_file option \<Rightarrow> 'm world \<Rightarrow> upload_exit \<times> 'm world" where
  "handleFileChange_begin file w =
     (case file of
        None \<Rightarrow> (InvalidFileType, setMessage invalid_file_msg w)
      | Some f \<Rightarrow>
          if file_type f = ''application/pdf'' then
            (UploadRequested f,
             fetch (PostUploadPdf f)
               ((setMessage
                   \<lparr>msg_text = Str (''Uploading and processing '' @ quoted (file_name f) @ ''...''),
                    msg_type = ''info''\<rparr>
                   (w\<lparr>pdfFile := Some f, showUploadModal := False\<rparr>))
                \<lparr>loading := True\<rparr>))
          else (InvalidFileType, setMessage invalid_file_msg w))"

definition network_error_msg :: "string \<Rightarrow> msg" where
  "network_error_msg e =
     \<lparr>msg_text = Str (''Network error: '' @ e @ ''. Is the backend running?''), msg_type = ''error''\<rparr>"

definition handleFileChange_resume ::
  "nat \<Rightarrow> pdf_file \<Rightarrow> 'm fetch_result \<Rightarrow> 'm world \<Rightarrow> 'm world" where
  "handleFileChange_resume now f res w =
     (case res of
        Responded ok d \<Rightarrow>
          if ok then
            (setMessage \<lparr>msg_text = d_message d, msg_type = ''success''\<rparr> w)
              \<lparr>recentPdfs := updatedPdfs now (file_name f) (recentPdfs w)\<rparr>
          else
            (setMessage
               \<lparr>msg_text = Str (''Error: '' @ js_string (or_else (d_message d) ''Failed to upload PDF.'')),
                msg_type = ''error''\<rparr> w)
              \<lparr>pdfFile := None\<rparr>
      | Threw e \<Rightarrow> (setMessage (network_error_msg e) w)\<lparr>pdfFile := None\<rparr>)
     \<lparr>loading := False\<rparr>"

text \<open>A whole call, with nothing else happening while the request is outstanding.\<close>

definition handleFileChange ::
  "nat \<Rightarrow> pdf_file option \<Rightarrow> 'm fetch_result \<Rightarrow> 'm world \<Rightarrow> upload_exit \<times> 'm world" where
  "handleFileChange now file res w =
     (case handleFileChange_begin file w of
        (UploadRequested f, w1) \<Rightarrow>
          (UploadRequested f, handleFileChange_resume now f res (settle (PostUploadPdf f) w1))
      | (InvalidFileType, w1) \<Rightarrow> (InvalidFileType, w1))"

section \<open>\<open>handleQuery\<close> (lines 69-108)\<close>

text \<open>Split at the \<open>await\<close> of line 85 in the same way. The exits name the two early
  returns (lines 72 and 76) and the path that issues the request.\<close>

datatype query_exit = EmptyQuery | NoActiveDocument | QueryRequested

definition handleQuery_begin :: "'m world \<Rightarrow> query_exit \<times> 'm world" where
  "handleQuery_begin w =
     (if trim (query w) = [] then
        (EmptyQuery, setMessage \<lparr>msg_text = Str ''Please enter a question.'', msg_type = ''error''\<rparr> w)
      else if pdfFile w = None then
        (NoActiveDocument,
         setMessage \<lparr>msg_text = Str ''Please upload a PDF first.'', msg_type = ''error''\<rparr> w)
      else
        (QueryRequested,
         fetch (PostAskPdf (query w))
           (setMessage \<lparr>msg_text = Str [], msg_type = []\<rparr>
              (w\<lparr>loading := True, response := Str [], metrics := None\<rparr>))))"

definition handleQuery_resume :: "'m fetch_result \<Rightarrow> 'm world \<Rightarrow> 'm world" where
  "handleQuery_resume res w =
     (case res of
        Responded ok d \<Rightarrow>
          if ok then
            setMessage \<lparr>msg_text = Str ''Response generated successfully!'', msg_type = ''success''\<rparr>
              (w\<lparr>response := d_response d, metrics := d_metrics d\<rparr>)
          else
            setMessage
              \<lparr>msg_text = Str (''Error: '' @ js_string (or_else (d_message d) ''Failed to get response.'')),
               msg_type = ''error''\<rparr> w
      | Threw e \<Rightarrow> setMessage (network_error_msg e) w)
     \<lparr>loading := False\<rparr>"

definition handleQuery :: "'m fetch_result \<Rightarrow> 'm world \<Rightarrow> query_exit \<times> 'm world" where
  "handleQuery res w =
     (case handleQuery_begin w of
        (QueryRequested, w1) \<Rightarrow>
          (QueryRequested, handleQuery_resume res (settle (PostAskPdf (query w)) w1))
      | (e, w1) \<Rightarrow> (e, w1))"

text \<open>A request that ended in the \<open>else\<close> branch of \<open>response.ok\<close> or in the \<open>catch\<close> block.\<close>

fun failed :: "'m fetch_result \<Rightarrow> bool" where
  "failed (Responded ok d) = (\<not> ok)"
| "failed (Threw e) = True"

section \<open>\<open>copyToClipboard\<close> (lines 111-126) and the inline handlers\<close>

definition copyToClipboard :: "exec_result \<Rightarrow> 'm world \<Rightarrow> 'm world" where
  "copyToClipboard r w =
     (if truthy (response w) then
        (case r of
           ExecReturned b \<Rightarrow>
             setMessage \<lparr>msg_text = Str ''Response copied to clipboard!'', msg_type = ''success''\<rparr>
               (w\<lparr>clipboard := (if b then js_string (response w) else clipboard w),
                  copies := copies w @ [js_string (response w)]\<rparr>)
         | ExecThrew \<Rightarrow>
             setMessage \<lparr>msg_text = Str ''Failed to copy text.'', msg_type = ''error''\<rparr>
               (w\<lparr>copies := copies w @ [js_string (response w)]\<rparr>))
      else w)"

text \<open>The recent-PDF button (lines 194-198).\<close>

definition recentPdf_onClick :: "recent_pdf \<Rightarrow> 'm world \<Rightarrow> 'm world" where
  "recentPdf_onClick pdf w =
     setMessage
       \<lparr>msg_text = Str (''Loaded '' @ quoted (pdf_name pdf) @ '' from recent files.''),
        msg_type = ''info''\<rparr>
       (w\<lparr>pdfFile := Some \<lparr>file_name = pdf_name pdf, file_type = ''application/pdf''\<rparr>\<rparr>)"

text \<open>The remove button (line 166).\<close>

definition removePdf_onClick :: "'m world \<Rightarrow> 'm world" where
  "removePdf_onClick w = w\<lparr>pdfFile := None\<rparr>"

section \<open>The message timer (lines 129-136)\<close>

definition setTimeout :: "nat \<Rightarrow> nat \<Rightarrow> 'm world \<Rightarrow> nat \<times> 'm world" where
  "setTimeout delay now w =
     (next_timer w,
      w\<lparr>timers := timers w @ [(next_timer w, now + delay)], next_timer := Suc (next_timer w)\<rparr>)"

definition clearTimeout :: "nat \<Rightarrow> 'm world \<Rightarrow> 'm world" where
  "clearTimeout t w = w\<lparr>timers := filter (\<lambda>(i, due). i \<noteq> t) (timers w)\<rparr>"

text \<open>The effect body: a timer only when \<open>message.text\<close> is truthy; the function it returns
  clears that timer.\<close>

definition message_effect :: "nat \<Rightarrow> 'm world \<Rightarrow> 'm world" where
  "message_effect now w =
     (if truthy (msg_text (message w)) then
        (case setTimeout 5000 now w of (t, w1) \<Rightarrow> w1\<lparr>cleanup := Some t\<rparr>)
      else w\<lparr>cleanup := None\<rparr>)"

definition run_cleanup :: "'m world \<Rightarrow> 'm world" where
  "run_cleanup w = (case cleanup w of Some t \<Rightarrow> clearTimeout t w | None \<Rightarrow> w)"

text \<open>
  React commits a new render some time after a handler has changed the state, and then
  runs the effect: it has the dependency list \<open>[message]\<close>, so when \<open>message\<close> holds
  another object than at its last run, the previous cleanup runs and then the effect
  body. \<open>now\<close> is the time of that commit. Nothing in the component clears a timeout
  before this point: \<open>clearTimeout\<close> occurs only in the cleanup (line 134).
\<close>

definition render :: "nat \<Rightarrow> 'm world \<Rightarrow> 'm world" where
  "render now w =
     (if message_ref w \<noteq> effect_dep w then
        (message_effect now (run_cleanup w))\<lparr>effect_dep := message_ref w\<rparr>
      else w)"

text \<open>The timeout callback (line 132), run by the browser for a pending timer that is due.\<close>

definition timer_fires :: "nat \<Rightarrow> nat \<Rightarrow> 'm world \<Rightarrow> 'm world" where
  "timer_fires now t w =
     (if list_ex (\<lambda>(i, due). i = t \<and> due \<le> now) (timers w) then
        setMessage \<lparr>msg_text = Str [], msg_type = []\<rparr>
          (w\<lparr>timers := filter (\<lambda>(i, due). i \<noteq> t) (timers w)\<rparr>)
      else w)"

section \<open>Events\<close>

text \<open>
  Everything that can run code of the component: typing in the textarea (line 220),
  the Get Answer button (line 224), a file chosen or dropped in the upload modal
  (lines 314-322), a pending fetch settling, the remove button (line 166), the Upload PDF
  button (line 178), the modal's Cancel button (line 329), the button of the recent PDF
  at an index (line 194), the Copy Response button (line 259), a timeout, and React
  committing a render with the effect of line 129. The conditions are those under which
  the JSX renders or enables the element. The commit is an event of its own because it
  does not happen inside the handler: after a \<open>setMessage\<close> made by the continuation of
  an \<open>await\<close> or by a timeout callback it comes in a later task, and a timeout that is due
  can run before it.
\<close>

datatype 'm event =
    QueryInput string
  | GetAnswerClick
  | FileChosen "pdf_file option"
  | Settled request "'m fetch_result"
  | RemoveClick
  | UploadClick
  | CancelClick
  | RecentClick nat
  | CopyClick exec_result
  | TimerFires nat
  | Commit

fun dispatch :: "nat \<Rightarrow> 'm event \<Rightarrow> 'm world \<Rightarrow> 'm world" where
  "dispatch now (QueryInput v) w = (if loading w \<or> pdfFile w = None then w else w\<lparr>query := v\<rparr>)"
| "dispatch now GetAnswerClick w =
     (if loading w \<or> pdfFile w = None then w else snd (handleQuery_begin w))"
| "dispatch now (FileChosen file) w =
     (if showUploadModal w then snd (handleFileChange_begin file w) else w)"
| "dispatch now (Settled r res) w =
     (if r \<in> set (inflight w) then
        (case r of
           PostUploadPdf f \<Rightarrow> handleFileChange_resume now f res (settle r w)
         | PostAskPdf q \<Rightarrow> handleQuery_resume res (settle r w))
      else w)"
| "dispatch now RemoveClick w = (if pdfFile w = None then w else removePdf_onClick w)"
| "dispatch now UploadClick w = w\<lparr>showUploadModal := True\<rparr>"
| "dispatch now CancelClick w = (if showUploadModal w then w\<lparr>showUploadModal := False\<rparr> else w)"
| "dispatch now (RecentClick i) w =
     (if i < length (recentPdfs w) then recentPdf_onClick (recentPdfs w ! i) w else w)"
| "dispatch now (CopyClick r) w = (if truthy (response w) then copyToClipboard r w else w)"
| "dispatch now (TimerFires t) w = timer_fires now t w"
| "dispatch now Commit w = render now w"

text \<open>A run of the component: events with the time at which each is handled.\<close>

fun run :: "(nat \<times> 'm event) list \<Rightarrow> 'm world \<Rightarrow> 'm world" where
  "run [] w = w"
| "run ((now, e) # es) w = run es (dispatch now e w)"

section \<open>Auxiliary notions for the proofs\<close>

text \<open>
  What holds of the timer table at all times: a pending timeout, if there is one, is alone
  and is the one the stored cleanup function will clear.
\<close>

definition timer_inv :: "'m world \<Rightarrow> bool" where
  "timer_inv w =
     (case timers w of
        [] \<Rightarrow> True
      | (t, due) # ts \<Rightarrow> ts = [] \<and> cleanup w = Some t \<and> t < next_timer w)"

text \<open>
  An upload whose reply arrives when the timeout of the \<open>Uploading\<close> message is due:
  the modal is opened, \<open>a.pdf\<close> is chosen at time 2 and the render is committed, and at
  time 5002 the request settles with status 200 and the message \<open>PDF processed\<close>.
\<close>

definition upload_replied :: "(nat \<times> nat event) list" where
  "upload_replied =
     [(0, UploadClick), (0, Commit),
      (2, FileChosen (Some \<lparr>file_name = ''a.pdf'', file_type = ''application/pdf''\<rparr>)), (2, Commit),
      (5002, Settled (PostUploadPdf \<lparr>file_name = ''a.pdf'', file_type = ''application/pdf''\<rparr>)
         (Responded True \<lparr>d_message = Str ''PDF processed'', d_response = Undefined, d_metrics = None\<rparr>))]"

text \<open>Two concrete states with a loaded PDF and an answer on display.\<close>

definition w_old :: "nat world" where
  "w_old = init\<lparr>query := ''why?'',
     pdfFile := Some \<lparr>file_name = ''a.pdf'', file_type = ''application/pdf''\<rparr>,
     response := Str ''old answer'', metrics := Some 1\<rparr>"

definition w_answered :: "nat world" where
  "w_answered = init\<lparr>pdfFile := Some \<lparr>file_name = ''a.pdf'', file_type = ''application/pdf''\<rparr>,
     response := Str ''It is about X'', metrics := Some 1\<rparr>"

section \<open>Properties of the recent-PDF list\<close>

lemma updatedPdfs_length: "length (updatedPdfs now nm prev) \<le> 5"
  by (simp add: updatedPdfs_def)

lemma distinct_names_filter:
  "distinct (map pdf_name prev) \<Longrightarrow> distinct (map pdf_name (filter P prev))"
  by (induction prev) auto

lemma updatedPdfs_distinct:
  assumes "distinct (map pdf_name prev)"
  shows "distinct (map pdf_name (updatedPdfs now nm prev))"
proof -
  let ?full = "\<lparr>pdf_id = now, pdf_name = nm\<rparr> # filter (\<lambda>p. pdf_name p \<noteq> nm) prev"
  have "nm \<notin> pdf_name ` set (filter (\<lambda>p. pdf_name p \<noteq> nm) prev)"
    by auto
  with assms have "distinct (map pdf_name ?full)"
    by (simp add: distinct_names_filter)
  then have "distinct (take 5 (map pdf_name ?full))"
    by (rule distinct_take)
  then show ?thesis
    by (simp only: updatedPdfs_def take_map)
qed

lemma recordAll_inv:
  "length prev \<le> 5 \<Longrightarrow> distinct (map pdf_name prev) \<Longrightarrow>
   length (recordAll calls prev) \<le> 5 \<and> distinct (map pdf_name (recordAll calls prev))"
proof (induction calls arbitrary: prev)
  case Nil
  then show ?case by simp
next
  case (Cons c calls)
  obtain now nm where c: "c = (now, nm)" by (cases c)
  show ?case
    unfolding c recordAll.simps
    by (rule Cons.IH) (simp_all add: updatedPdfs_length updatedPdfs_distinct Cons.prems)
qed

section \<open>The handlers\<close>

lemmas handler_defs = handleFileChange_begin_def handleFileChange_resume_def handleFileChange_def
  handleQuery_begin_def handleQuery_resume_def handleQuery_def copyToClipboard_def
  recentPdf_onClick_def removePdf_onClick_def setMessage_def fetch_def settle_def

text \<open>
  C1. The part of \<open>handleFileChange\<close> and of \<open>handleQuery\<close> that runs after the request
  ends with \<open>loading\<close> false, whatever the outcome of the request and whatever the state
  it resumes on. For a whole call: \<open>loading\<close> is false after every call that issued a
  request, and a call that stopped at a precondition never touched it.
\<close>

theorem busy_flag_released:
  "\<not> loading (handleFileChange_resume now f res w) \<and>
   \<not> loading (handleQuery_resume res w) \<and>
   loading (snd (handleFileChange now file res w)) =
     (case fst (handleFileChange now file res w) of
        UploadRequested g \<Rightarrow> False | InvalidFileType \<Rightarrow> loading w) \<and>
   loading (snd (handleQuery res w)) =
     (case fst (handleQuery res w) of QueryRequested \<Rightarrow> False | _ \<Rightarrow> loading w)"
  by (simp add: handler_defs split: option.splits fetch_result.splits)

text \<open>
  C3, as amended. With \<open>pdfFile\<close> empty, \<open>handleQuery\<close> sets an error message and issues
  no request, for every query text; it leaves by the return of line 76
  (\<open>NoActiveDocument\<close>) when the trimmed text is not empty, and by the return of line 72
  (\<open>EmptyQuery\<close>) when it is, because that check comes first.
\<close>

theorem query_without_document:
  assumes "pdfFile w = None"
  shows "handleQuery res w =
      (if trim (query w) = [] then
         (EmptyQuery, setMessage \<lparr>msg_text = Str ''Please enter a question.'', msg_type = ''error''\<rparr> w)
       else
         (NoActiveDocument,
          setMessage \<lparr>msg_text = Str ''Please upload a PDF first.'', msg_type = ''error''\<rparr> w)) \<and>
    msg_type (message (snd (handleQuery res w))) = ''error'' \<and>
    truthy (msg_text (message (snd (handleQuery res w)))) \<and>
    requests (snd (handleQuery res w)) = requests w \<and>
    inflight (snd (handleQuery res w)) = inflight w"
  using assms by (simp add: handler_defs)

theorem query_without_document_witness:
  "pdfFile ((init :: unit world)\<lparr>query := ''why?''\<rparr>) = None \<and>
   fst (handleQuery (Threw ''down'') ((init :: unit world)\<lparr>query := ''why?''\<rparr>)) = NoActiveDocument \<and>
   requests (snd (handleQuery (Threw ''down'') ((init :: unit world)\<lparr>query := ''why?''\<rparr>))) = []"
  using query_without_document [of "(init :: unit world)\<lparr>query := ''why?''\<rparr>" "Threw ''down''"]
  by (simp add: init_def trim_def is_space_def setMessage_def)

text \<open>
  C3 as stated fails for a text of two spaces: there is no PDF, and the call does not end
  as \<open>NoActiveDocument\<close>.
\<close>

theorem query_no_document_empty_text_counterexample:
  "pdfFile ((init :: unit world)\<lparr>query := ''  ''\<rparr>) = None \<and>
   fst (handleQuery (Threw ''down'') ((init :: unit world)\<lparr>query := ''  ''\<rparr>)) \<noteq> NoActiveDocument"
  by (simp add: init_def handler_defs trim_def is_space_def)

text \<open>
  C4 as stated fails: with an answer and metrics on display, a query that the server
  answers with an error status leaves \<open>response\<close> empty and \<open>metrics\<close> null, which is
  neither their value before the call nor anything the reply carried.
\<close>

theorem query_error_clears_result_counterexample:
  "fst (handleQuery
          (Responded False \<lparr>d_message = Str ''boom'', d_response = Str ''new answer'', d_metrics = Some 2\<rparr>)
          w_old) = QueryRequested \<and>
   response (snd (handleQuery
          (Responded False \<lparr>d_message = Str ''boom'', d_response = Str ''new answer'', d_metrics = Some 2\<rparr>)
          w_old)) = Str [] \<and>
   response w_old = Str ''old answer'' \<and>
   metrics (snd (handleQuery
          (Responded False \<lparr>d_message = Str ''boom'', d_response = Str ''new answer'', d_metrics = Some 2\<rparr>)
          w_old)) = None \<and>
   metrics w_old = Some 1"
  by (simp add: w_old_def init_def handler_defs trim_def is_space_def)

text \<open>
  C4, as amended. When the request of \<open>handleQuery\<close> fails (error status or exception),
  the part that runs after it writes neither \<open>pdfFile\<close> nor \<open>response\<close> nor \<open>metrics\<close> and
  sets an error message; over the whole call \<open>pdfFile\<close> keeps its value and the query
  result is empty, \<open>response\<close> and \<open>metrics\<close> having been cleared together before the
  request.
\<close>

theorem query_error_leaves_result_empty:
  assumes "failed res"
  shows "pdfFile (handleQuery_resume res w) = pdfFile w \<and>
    response (handleQuery_resume res w) = response w \<and>
    metrics (handleQuery_resume res w) = metrics w \<and>
    msg_type (message (handleQuery_resume res w)) = ''error'' \<and>
    (fst (handleQuery res w) = QueryRequested \<longrightarrow>
       pdfFile (snd (handleQuery res w)) = pdfFile w \<and>
       response (snd (handleQuery res w)) = Str [] \<and>
       metrics (snd (handleQuery res w)) = None \<and>
       msg_type (message (snd (handleQuery res w))) = ''error'')"
  using assms by (cases res) (simp_all add: handler_defs network_error_msg_def)

theorem query_error_leaves_result_empty_witness:
  "failed (Threw ''down'' :: nat fetch_result) \<and>
   fst (handleQuery (Threw ''down'') w_old) = QueryRequested \<and>
   pdfFile (snd (handleQuery (Threw ''down'') w_old)) = pdfFile w_old \<and>
   response (snd (handleQuery (Threw ''down'') w_old)) = Str [] \<and>
   metrics (snd (handleQuery (Threw ''down'') w_old)) = None"
proof -
  have q: "fst (handleQuery (Threw ''down'') w_old) = QueryRequested"
    by (simp add: w_old_def init_def handler_defs trim_def is_space_def)
  from query_error_leaves_result_empty [of "Threw ''down''" w_old] q show ?thesis
    by simp
qed

section \<open>The recent-PDF list in the running component\<close>

lemma render_recentPdfs: "recentPdfs (render now w) = recentPdfs w"
  by (simp add: render_def message_effect_def run_cleanup_def setTimeout_def clearTimeout_def
      split: option.splits)

lemma dispatch_recentPdfs:
  "recentPdfs (dispatch now e w) =
     (case e of
        Settled r res \<Rightarrow>
          (case r of
             PostUploadPdf f \<Rightarrow>
               if r \<in> set (inflight w) \<and> \<not> failed res
               then updatedPdfs now (file_name f) (recentPdfs w) else recentPdfs w
           | PostAskPdf q \<Rightarrow> recentPdfs w)
      | _ \<Rightarrow> recentPdfs w)"
proof (cases e)
  case (Settled r res)
  then show ?thesis
    by (cases r; cases res) (simp_all add: render_recentPdfs handler_defs)
next
  case (FileChosen chosen)
  then show ?thesis
    by (cases chosen) (simp_all add: render_recentPdfs handler_defs)
qed (simp_all add: render_recentPdfs handler_defs timer_fires_def split: exec_result.splits)

lemma dispatch_cache_inv:
  assumes "length (recentPdfs w) \<le> 5" "distinct (map pdf_name (recentPdfs w))"
  shows "length (recentPdfs (dispatch now e w)) \<le> 5 \<and>
    distinct (map pdf_name (recentPdfs (dispatch now e w)))"
  using assms
  by (simp add: dispatch_recentPdfs updatedPdfs_length updatedPdfs_distinct
      split: event.splits request.splits)

lemma run_cache_inv:
  "length (recentPdfs w) \<le> 5 \<Longrightarrow> distinct (map pdf_name (recentPdfs w)) \<Longrightarrow>
   length (recentPdfs (run es w)) \<le> 5 \<and> distinct (map pdf_name (recentPdfs (run es w)))"
proof (induction es arbitrary: w)
  case Nil
  then show ?case by simp
next
  case (Cons a es)
  obtain now e where a: "a = (now, e)" by (cases a)
  from dispatch_cache_inv [OF Cons.prems, of now e] show ?case
    unfolding a run.simps by (intro Cons.IH) simp_all
qed

text \<open>
  C2. Whatever sequence of successful uploads is recorded, starting from the empty list,
  the recent-PDF list has at most 5 entries and no two entries with the same name. The
  same holds of \<open>recentPdfs\<close> in every state the component reaches from its initial
  state, where the updater of lines 44-49 is the only code that writes it.
\<close>

theorem recent_cache_bounded_distinct:
  "length (recordAll calls []) \<le> 5 \<and> distinct (map pdf_name (recordAll calls [])) \<and>
   length (recentPdfs (run es init)) \<le> 5 \<and> distinct (map pdf_name (recentPdfs (run es init)))"
proof -
  have "length (recentPdfs (run es init)) \<le> 5 \<and> distinct (map pdf_name (recentPdfs (run es init)))"
    by (rule run_cache_inv) (simp_all add: init_def)
  with recordAll_inv [of "[]" calls] show ?thesis by simp
qed

section \<open>Who writes \<open>pdfFile\<close>\<close>

text \<open>
  C5 as stated fails twice: \<open>handleFileChange\<close> stores the file in \<open>pdfFile\<close> before the
  request is issued, so it is set while the upload is still in flight; and the button of
  a recent PDF sets \<open>pdfFile\<close> too.
\<close>

theorem document_set_early_counterexample:
  "pdfFile (snd (handleFileChange_begin
       (Some \<lparr>file_name = ''a.pdf'', file_type = ''application/pdf''\<rparr>) (init :: unit world))) =
     Some \<lparr>file_name = ''a.pdf'', file_type = ''application/pdf''\<rparr> \<and>
   inflight (snd (handleFileChange_begin
       (Some \<lparr>file_name = ''a.pdf'', file_type = ''application/pdf''\<rparr>) (init :: unit world))) =
     [PostUploadPdf \<lparr>file_name = ''a.pdf'', file_type = ''application/pdf''\<rparr>] \<and>
   pdfFile (recentPdf_onClick \<lparr>pdf_id = 1, pdf_name = ''b.pdf''\<rparr> (init :: unit world)) =
     Some \<lparr>file_name = ''b.pdf'', file_type = ''application/pdf''\<rparr>"
  by (simp add: init_def handler_defs)

lemma render_pdfFile: "pdfFile (render now w) = pdfFile w"
  by (simp add: render_def message_effect_def run_cleanup_def setTimeout_def clearTimeout_def
      split: option.splits)

text \<open>
  C5, as amended. Over all events of the component, \<open>pdfFile\<close> is written only
  \<^item> by \<open>handleFileChange\<close>: set to the chosen file when it is accepted, before the request;
    kept when the upload succeeds; cleared when it fails (error status or exception);
  \<^item> by the button of a recent PDF: set to that entry's name with the PDF type;
  \<^item> by the remove button: cleared.
  Every other event leaves it as it is.
\<close>

theorem document_reference_writers:
  "pdfFile (dispatch now e w) =
     (case e of
        FileChosen file \<Rightarrow>
          (case file of
             Some f \<Rightarrow> if showUploadModal w \<and> file_type f = ''application/pdf'' then Some f else pdfFile w
           | None \<Rightarrow> pdfFile w)
      | Settled r res \<Rightarrow>
          (case r of
             PostUploadPdf f \<Rightarrow> if r \<in> set (inflight w) \<and> failed res then None else pdfFile w
           | PostAskPdf q \<Rightarrow> pdfFile w)
      | RemoveClick \<Rightarrow> None
      | RecentClick i \<Rightarrow>
          if i < length (recentPdfs w)
          then Some \<lparr>file_name = pdf_name (recentPdfs w ! i), file_type = ''application/pdf''\<rparr>
          else pdfFile w
      | _ \<Rightarrow> pdfFile w)"
proof (cases e)
  case (Settled r res)
  then show ?thesis
    by (cases r; cases res) (simp_all add: render_pdfFile handler_defs)
next
  case (FileChosen chosen)
  then show ?thesis
    by (cases chosen) (simp_all add: render_pdfFile handler_defs)
qed (simp_all add: render_pdfFile handler_defs timer_fires_def split: exec_result.splits)

section \<open>The message timer\<close>

lemma timer_inv_cases:
  assumes "timer_inv w"
  obtains "timers w = []" | t due where "timers w = [(t, due)]" "cleanup w = Some t" "t < next_timer w"
  using assms by (auto simp: timer_inv_def split: list.splits)

lemma handler_env:
  assumes "e \<noteq> Commit"
  shows "effect_dep (dispatch now e w) = effect_dep w \<and>
   cleanup (dispatch now e w) = cleanup w \<and>
   next_timer (dispatch now e w) = next_timer w"
proof (cases e)
  case (Settled r res)
  then show ?thesis
    by (cases r; cases res) (simp_all add: handler_defs)
next
  case (FileChosen chosen)
  then show ?thesis
    by (cases chosen) (simp_all add: handler_defs)
qed (use assms in \<open>simp_all add: handler_defs timer_fires_def split: exec_result.splits\<close>)

lemma handler_timers:
  assumes "e \<noteq> Commit"
  shows "timers (dispatch now e w) =
     (case e of
        TimerFires t \<Rightarrow>
          if list_ex (\<lambda>(i, due). i = t \<and> due \<le> now) (timers w)
          then filter (\<lambda>(i, due). i \<noteq> t) (timers w) else timers w
      | _ \<Rightarrow> timers w)"
proof (cases e)
  case (Settled r res)
  then show ?thesis
    by (cases r; cases res) (simp_all add: handler_defs)
next
  case (FileChosen chosen)
  then show ?thesis
    by (cases chosen) (simp_all add: handler_defs)
qed (use assms in \<open>simp_all add: handler_defs timer_fires_def split: exec_result.splits\<close>)

text \<open>No handler creates a timeout: it leaves the table alone or, when it is the callback
  of a timeout, takes that one out.\<close>

lemma handler_inv:
  assumes "timer_inv w" "e \<noteq> Commit"
  shows "timer_inv (dispatch now e w)"
proof -
  have env: "cleanup (dispatch now e w) = cleanup w" "next_timer (dispatch now e w) = next_timer w"
    using handler_env [OF assms(2), of now w] by simp_all
  from assms(1) show ?thesis
  proof (cases rule: timer_inv_cases)
    case 1
    then have "timers (dispatch now e w) = []"
      by (simp add: handler_timers [OF assms(2)] split: event.splits)
    then show ?thesis
      by (simp add: timer_inv_def)
  next
    case (2 t due)
    then have "timers (dispatch now e w) = [(t, due)] \<or> timers (dispatch now e w) = []"
      by (simp add: handler_timers [OF assms(2)] split: event.splits)
    with 2 env show ?thesis
      by (auto simp: timer_inv_def)
  qed
qed

lemma cleanup_empties:
  assumes "timer_inv w"
  shows "timers (run_cleanup w) = []"
  using assms
  by (cases rule: timer_inv_cases) (simp_all add: run_cleanup_def clearTimeout_def split: option.splits)

lemma run_cleanup_env:
  "message (run_cleanup w) = message w \<and> next_timer (run_cleanup w) = next_timer w \<and>
   message_ref (run_cleanup w) = message_ref w"
  by (simp add: run_cleanup_def clearTimeout_def split: option.splits)

text \<open>A commit for a new \<open>message\<close> object clears the pending timeout before it sets one,
  due 5000 ms after the commit.\<close>

lemma render_timers:
  assumes "timer_inv w" "message_ref w \<noteq> effect_dep w"
  shows "timers (render now w) =
      (if truthy (msg_text (message w)) then [(next_timer w, now + 5000)] else [])"
    and "cleanup (render now w) =
      (if truthy (msg_text (message w)) then Some (next_timer w) else None)"
    and "next_timer (render now w) =
      (if truthy (msg_text (message w)) then Suc (next_timer w) else next_timer w)"
  using assms(2)
  by (simp_all add: render_def message_effect_def setTimeout_def
      cleanup_empties [OF assms(1)] run_cleanup_env)

lemma render_inv:
  assumes "timer_inv w"
  shows "timer_inv (render now w)"
proof (cases "message_ref w = effect_dep w")
  case True
  with assms show ?thesis
    by (simp add: render_def)
next
  case False
  with assms show ?thesis
    by (simp add: timer_inv_def render_timers)
qed

lemma dispatch_inv:
  assumes "timer_inv w"
  shows "timer_inv (dispatch now e w)"
proof (cases "e = Commit")
  case True
  with assms show ?thesis
    by (simp add: render_inv)
next
  case False
  with assms show ?thesis
    by (rule handler_inv)
qed

lemma run_inv: "timer_inv w \<Longrightarrow> timer_inv (run es w)"
  by (induction es arbitrary: w) (auto simp: dispatch_inv)

lemma init_inv: "timer_inv init"
  by (simp add: timer_inv_def init_def)

text \<open>At most one timeout is pending in every state the component reaches, whatever the
  order of handlers, timeouts and commits.\<close>

lemma pending_timers_at_most_one: "length (timers (run es init)) \<le> 1"
  using run_inv [OF init_inv, of es] by (cases rule: timer_inv_cases) simp_all

text \<open>
  C6. The reply of an upload sets the message \<open>PDF processed\<close> at time 5002 while the
  timeout of the earlier \<open>Uploading\<close> message, due at 5002, is still pending: it is cleared
  only by the cleanup of the next commit. When that timeout runs first, its callback
  clears the new message, and the commit that follows sets no timeout for it: the
  message set at 5002 is gone at 5002, cleared by the timeout of the message before it.
\<close>

theorem stale_timer_clears_new_message:
  "message (run upload_replied init) =
     \<lparr>msg_text = Str ''PDF processed'', msg_type = ''success''\<rparr> \<and>
   timers (run upload_replied init) = [(0, 5002)] \<and>
   message (run (upload_replied @ [(5002, TimerFires 0)]) init) =
     \<lparr>msg_text = Str [], msg_type = []\<rparr> \<and>
   message (run (upload_replied @ [(5002, TimerFires 0), (5002, Commit)]) init) =
     \<lparr>msg_text = Str [], msg_type = []\<rparr> \<and>
   timers (run (upload_replied @ [(5002, TimerFires 0), (5002, Commit)]) init) = [] \<and>
   map pdf_name (recentPdfs (run (upload_replied @ [(5002, TimerFires 0), (5002, Commit)]) init)) =
     [''a.pdf'']"
  by (simp add: upload_replied_def init_def handler_defs updatedPdfs_def render_def
      message_effect_def setTimeout_def run_cleanup_def clearTimeout_def timer_fires_def quoted_def)

section \<open>Re-uploading and selecting a recent PDF\<close>

lemma filter_out_one:
  "distinct (map pdf_name xs) \<Longrightarrow> nm \<in> set (map pdf_name xs) \<Longrightarrow>
   Suc (length (filter (\<lambda>p. pdf_name p \<noteq> nm) xs)) = length xs"
proof (induction xs)
  case Nil
  then show ?case by simp
next
  case (Cons x xs)
  show ?case
  proof (cases "pdf_name x = nm")
    case True
    with Cons.prems have "nm \<notin> set (map pdf_name xs)" by auto
    then have "filter (\<lambda>p. pdf_name p \<noteq> nm) xs = xs"
      by (auto simp: filter_id_conv)
    with True show ?thesis by simp
  next
    case False
    with Cons show ?thesis by auto
  qed
qed

lemma updatedPdfs_promote:
  assumes "length prev \<le> 5" "distinct (map pdf_name prev)" "nm \<in> set (map pdf_name prev)"
  shows "updatedPdfs now nm prev =
      \<lparr>pdf_id = now, pdf_name = nm\<rparr> # filter (\<lambda>p. pdf_name p \<noteq> nm) prev"
    and "length (updatedPdfs now nm prev) = length prev"
proof -
  from assms have "Suc (length (filter (\<lambda>p. pdf_name p \<noteq> nm) prev)) \<le> 5"
    by (simp add: filter_out_one)
  then show "updatedPdfs now nm prev =
      \<lparr>pdf_id = now, pdf_name = nm\<rparr> # filter (\<lambda>p. pdf_name p \<noteq> nm) prev"
    by (simp add: updatedPdfs_def)
  with assms show "length (updatedPdfs now nm prev) = length prev"
    by (simp add: filter_out_one)
qed

text \<open>
  C7. When the recent-PDF list, after any sequence of recorded uploads, has an entry named
  \<open>nm\<close>, recording \<open>nm\<close> again puts a new entry for \<open>nm\<close> at the front, followed by the
  other entries in their order, and the list keeps its length.
\<close>

theorem reupload_promotes:
  assumes "nm \<in> set (map pdf_name (recordAll calls []))"
  shows "updatedPdfs now nm (recordAll calls []) =
      \<lparr>pdf_id = now, pdf_name = nm\<rparr> # filter (\<lambda>p. pdf_name p \<noteq> nm) (recordAll calls []) \<and>
    length (updatedPdfs now nm (recordAll calls [])) = length (recordAll calls [])"
proof -
  have l: "length (recordAll calls []) \<le> 5" and d: "distinct (map pdf_name (recordAll calls []))"
    using recordAll_inv [of "[]" calls] by simp_all
  from updatedPdfs_promote [OF l d assms, of now] show ?thesis
    by (intro conjI)
qed

theorem reupload_promotes_witness:
  "''a.pdf'' \<in> set (map pdf_name (recordAll [(1, ''a.pdf''), (2, ''b.pdf'')] [])) \<and>
   updatedPdfs 3 ''a.pdf'' (recordAll [(1, ''a.pdf''), (2, ''b.pdf'')] []) =
     [\<lparr>pdf_id = 3, pdf_name = ''a.pdf''\<rparr>, \<lparr>pdf_id = 2, pdf_name = ''b.pdf''\<rparr>] \<and>
   length (updatedPdfs 3 ''a.pdf'' (recordAll [(1, ''a.pdf''), (2, ''b.pdf'')] [])) = 2"
proof -
  have r: "recordAll [(1, ''a.pdf''), (2, ''b.pdf'')] [] =
      [\<lparr>pdf_id = 2, pdf_name = ''b.pdf''\<rparr>, \<lparr>pdf_id = 1, pdf_name = ''a.pdf''\<rparr>]"
    by (simp add: updatedPdfs_def)
  have m: "''a.pdf'' \<in> set (map pdf_name (recordAll [(1, ''a.pdf''), (2, ''b.pdf'')] []))"
    unfolding r by simp
  from reupload_promotes [OF m, of 3] m show ?thesis
    unfolding r by simp
qed

text \<open>
  C8. The button of a recent PDF sets \<open>pdfFile\<close> to the entry's name with type
  \<open>application/pdf\<close>, issues no request and leaves \<open>recentPdfs\<close> as it is, also when
  it is the event at an index of the list and through the commit that follows it; after
  a successful upload, clicking an entry replaces \<open>pdfFile\<close> and leaves the list as the
  upload made it.
\<close>

theorem select_recent_frame:
  "pdfFile (recentPdf_onClick pdf w) =
     Some \<lparr>file_name = pdf_name pdf, file_type = ''application/pdf''\<rparr> \<and>
   requests (recentPdf_onClick pdf w) = requests w \<and>
   inflight (recentPdf_onClick pdf w) = inflight w \<and>
   recentPdfs (recentPdf_onClick pdf w) = recentPdfs w \<and>
   recentPdfs (dispatch now (RecentClick i) w) = recentPdfs w \<and>
   requests (dispatch now (RecentClick i) w) = requests w \<and>
   recentPdfs (dispatch now Commit (dispatch now (RecentClick i) w)) = recentPdfs w \<and>
   requests (dispatch now Commit (dispatch now (RecentClick i) w)) = requests w \<and>
   recentPdfs (recentPdf_onClick pdf (handleFileChange_resume now f (Responded True d) w)) =
     updatedPdfs now (file_name f) (recentPdfs w) \<and>
   pdfFile (recentPdf_onClick pdf (handleFileChange_resume now f (Responded True d) w)) =
     Some \<lparr>file_name = pdf_name pdf, file_type = ''application/pdf''\<rparr>"
  by (simp add: handler_defs render_def message_effect_def setTimeout_def
      run_cleanup_def clearTimeout_def split: option.splits)

section \<open>Copying the response\<close>

text \<open>
  C9. With an answer on display, when \<open>document.execCommand('copy')\<close> returns false
  (the copy was refused), \<open>copyToClipboard\<close> ignores the returned value: the message is the
  success message although the clipboard does not hold the answer.
\<close>

theorem copy_refused_reports_success:
  "message (copyToClipboard (ExecReturned False) w_answered) =
     \<lparr>msg_text = Str ''Response copied to clipboard!'', msg_type = ''success''\<rparr> \<and>
   clipboard (copyToClipboard (ExecReturned False) w_answered) = clipboard w_answered \<and>
   clipboard w_answered \<noteq> js_string (response w_answered)"
  by (simp add: w_answered_def init_def copyToClipboard_def setMessage_def)

text \<open>What does hold of \<open>copyToClipboard\<close> in every outcome.\<close>

lemma copyToClipboard_frame:
  "pdfFile (copyToClipboard r w) = pdfFile w \<and> loading (copyToClipboard r w) = loading w \<and>
   response (copyToClipboard r w) = response w \<and> metrics (copyToClipboard r w) = metrics w \<and>
   requests (copyToClipboard r w) = requests w"
  by (simp add: copyToClipboard_def setMessage_def split: exec_result.splits)

lemma copyToClipboard_outcomes:
  assumes "truthy (response w)"
  shows "clipboard (copyToClipboard (ExecReturned True) w) = js_string (response w)"
    and "msg_type (message (copyToClipboard (ExecReturned b) w)) = ''success''"
    and "msg_type (message (copyToClipboard ExecThrew w)) = ''error''"
  using assms by (simp_all add: copyToClipboard_def setMessage_def)

text \<open>
  C10. When \<open>response\<close> is falsy (empty or absent), \<open>copyToClipboard\<close> changes nothing:
  no call to \<open>execCommand\<close>, no message, no other state.
\<close>

theorem copy_without_response_noop:
  assumes "\<not> truthy (response w)"
  shows "copyToClipboard r w = w \<and> dispatch now (CopyClick r) w = w"
  using assms by (simp add: copyToClipboard_def)

theorem copy_without_response_noop_witness:
  "\<not> truthy (response (init :: unit world)) \<and>
   copyToClipboard (ExecReturned True) (init :: unit world) = init \<and>
   dispatch 0 (CopyClick (ExecReturned True)) (init :: unit world) = init"
proof -
  have h: "\<not> truthy (response (init :: unit world))"
    by (simp add: init_def)
  from copy_without_response_noop [OF h, of "ExecReturned True" 0] h show ?thesis
    by simp
qed

end
